theory Spec2Isabelle
  imports Complex_Main "HOL-Library.AList"
begin

section \<open>Python values\<close>

text \<open>
  The loader of \<^verbatim>\<open>src/services/neo4j_loader.py\<close> works on what \<^verbatim>\<open>json.load\<close> returns:
  \<^verbatim>\<open>None\<close>, booleans, integers, floats, strings, lists and dictionaries with string keys.

  A Python \<^verbatim>\<open>str\<close> is modelled by its UTF-8 encoding, a \<^typ>\<open>string\<close>. The operations the
  loader applies to strings (\<^verbatim>\<open>replace\<close>, \<^verbatim>\<open>split\<close>, concatenation, comparison) give the
  same result on the encoding as on the code points.

  A float is modelled by the value it denotes: a finite double by the rational number it is
  equal to, the two infinities, and NaN. The sign of zero is not represented: \<^verbatim>\<open>-0.0\<close> and
  \<^verbatim>\<open>0.0\<close>, which are equal under \<^verbatim>\<open>==\<close>, are both \<open>Finite 0\<close>.
\<close>

datatype pyfloat = Finite rat | PosInf | NegInf | NaN

datatype pyval =
    PNone
  | PBool bool
  | PInt int
  | PFloat pyfloat
  | PStr string
  | PList "pyval list"
  | PDict "(string \<times> pyval) list"

text \<open>The exceptions the loader's own expressions can raise.\<close>

datatype py_exn =
    KeyError string
  | TypeError
  | AttributeError
  | ValueError
  | OverflowError

type_synonym 'a result = "py_exn + 'a"

definition bind :: "'a result \<Rightarrow> ('a \<Rightarrow> 'b result) \<Rightarrow> 'b result" where
  "bind m f = (case m of Inl e \<Rightarrow> Inl e | Inr x \<Rightarrow> f x)"

subsection \<open>Comparison of floats\<close>

text \<open>Python's \<^verbatim>\<open>==\<close> on two floats: NaN is equal to nothing, itself included.\<close>

fun float_eq :: "pyfloat \<Rightarrow> pyfloat \<Rightarrow> bool" where
  "float_eq NaN _ = False"
| "float_eq _ NaN = False"
| "float_eq a b = (a = b)"

subsection \<open>Rounding to a double\<close>

text \<open>
  \<^verbatim>\<open>float\<close> rounds its argument to the nearest IEEE 754 double (53 bits of mantissa, least
  exponent \<open>-1074\<close>), ties to the even mantissa. \<open>round_double\<close> returns \<open>None\<close> when the
  rounded magnitude reaches \<open>2 ^ 1024\<close>, that is, on overflow.
\<close>

function bit_length :: "int \<Rightarrow> int" where
  "bit_length n = (if n \<le> 0 then 0 else 1 + bit_length (n div 2))"
  by pat_completeness auto
termination
  by (relation "measure nat") auto

declare bit_length.simps [simp del]

definition pow2 :: "int \<Rightarrow> rat" where
  "pow2 e = (if 0 \<le> e then 2 ^ nat e else 1 / 2 ^ nat (- e))"

definition floor_log2 :: "rat \<Rightarrow> int" where
  "floor_log2 a =
     (let (n, d) = quotient_of a;
          k = bit_length n - bit_length d
      in if pow2 k \<le> a then k else k - 1)"

definition round_half_even :: "rat \<Rightarrow> int" where
  "round_half_even x =
     (let f = \<lfloor>x\<rfloor>; d = x - of_int f
      in if d < 1 / 2 then f
         else if 1 / 2 < d then f + 1
         else if even f then f else f + 1)"

definition round_double :: "rat \<Rightarrow> rat option" where
  "round_double q =
     (if q = 0 then Some 0
      else
        let a = \<bar>q\<bar>;
            e = max (floor_log2 a - 52) (- 1074);
            r = of_int (round_half_even (a / pow2 e)) * pow2 e
        in if pow2 1024 \<le> r then None
           else Some (if q < 0 then - r else r))"

text \<open>\<^verbatim>\<open>float(n)\<close> for an \<^verbatim>\<open>int\<close>: \<^verbatim>\<open>OverflowError\<close> when \<open>n\<close> is too large for a double.\<close>

definition float_of_int :: "int \<Rightarrow> pyfloat result" where
  "float_of_int n =
     (case round_double (of_int n) of
        None \<Rightarrow> Inl OverflowError
      | Some r \<Rightarrow> Inr (Finite r))"

section \<open>Strings\<close>

subsection \<open>\<^verbatim>\<open>str.replace\<close> and \<^verbatim>\<open>str.split\<close>\<close>

text \<open>
  Both scan from the left for occurrences of a separator that do not overlap. The loader
  only calls them with a literal, non-empty separator; on an empty one \<open>replace\<close> and
  \<open>split\<close> leave the string alone (Python inserts, respectively raises).
\<close>

function replace :: "string \<Rightarrow> string \<Rightarrow> string \<Rightarrow> string" where
  "replace old new [] = []"
| "replace old new (c # cs) =
     (if old \<noteq> [] \<and> take (length old) (c # cs) = old
      then new @ replace old new (drop (length old) (c # cs))
      else c # replace old new cs)"
  by pat_completeness auto
termination
  by (relation "measure (\<lambda>(old, new, s). length s)") (auto simp: neq_Nil_conv)

function split :: "string \<Rightarrow> string \<Rightarrow> string list" where
  "split sep [] = [[]]"
| "split sep (c # cs) =
     (if sep \<noteq> [] \<and> take (length sep) (c # cs) = sep
      then [] # split sep (drop (length sep) (c # cs))
      else (case split sep cs of
              [] \<Rightarrow> [[c]]
            | p # ps \<Rightarrow> (c # p) # ps))"
  by pat_completeness auto
termination
  by (relation "measure (\<lambda>(sep, s). length s)") (auto simp: neq_Nil_conv)

subsection \<open>Whitespace\<close>

text \<open>
  \<^verbatim>\<open>str.strip()\<close> removes the characters for which \<^verbatim>\<open>str.isspace\<close> holds: in UTF-8, the
  bytes 09 to 0D, 1C to 1F and 20, the two-byte sequences C2 85 and C2 A0, and the
  three-byte sequences of U+1680, U+2000 to U+200A, U+2028, U+2029, U+202F, U+205F and
  U+3000.
\<close>

definition is_space1 :: "char \<Rightarrow> bool" where
  "is_space1 c = (let n = (of_char c :: nat) in (9 \<le> n \<and> n \<le> 13) \<or> (28 \<le> n \<and> n \<le> 32))"

definition is_space2 :: "char \<Rightarrow> char \<Rightarrow> bool" where
  "is_space2 a b = (a = CHR 0xC2 \<and> (b = CHR 0x85 \<or> b = CHR 0xA0))"

definition is_space3 :: "char \<Rightarrow> char \<Rightarrow> char \<Rightarrow> bool" where
  "is_space3 a b c =
     (let n = (of_char c :: nat) in
        (a = CHR 0xE1 \<and> b = CHR 0x9A \<and> c = CHR 0x80) \<or>
        (a = CHR 0xE2 \<and> b = CHR 0x80 \<and> ((128 \<le> n \<and> n \<le> 138) \<or> n = 168 \<or> n = 169 \<or> n = 175)) \<or>
        (a = CHR 0xE2 \<and> b = CHR 0x81 \<and> c = CHR 0x9F) \<or>
        (a = CHR 0xE3 \<and> b = CHR 0x80 \<and> c = CHR 0x80))"

text \<open>
  \<open>drop_space rv s\<close> removes the whitespace at the head of \<open>s\<close>; with \<open>rv\<close> the string is
  read as a reversed one, its multi-byte sequences last byte first.
\<close>

fun drop_space :: "bool \<Rightarrow> string \<Rightarrow> string" where
  "drop_space rv (a # b # c # r) =
     (if is_space1 a then drop_space rv (b # c # r)
      else if (if rv then is_space2 b a else is_space2 a b) then drop_space rv (c # r)
      else if (if rv then is_space3 c b a else is_space3 a b c) then drop_space rv r
      else a # b # c # r)"
| "drop_space rv [a, b] =
     (if is_space1 a then drop_space rv [b]
      else if (if rv then is_space2 b a else is_space2 a b) then []
      else [a, b])"
| "drop_space rv [a] = (if is_space1 a then [] else [a])"
| "drop_space rv [] = []"

definition strip :: "string \<Rightarrow> string" where
  "strip s = rev (drop_space True (rev (drop_space False s)))"

subsection \<open>\<^verbatim>\<open>float\<close> and \<^verbatim>\<open>int\<close> of a string\<close>

text \<open>
  Before parsing, both builtins turn every whitespace character beyond ASCII into a space
  and then remove, at both ends, the bytes 09 to 0D and 20. They also accept the decimal
  digits of other scripts; that is not modelled: a digit here is one of \<^verbatim>\<open>0\<close> to \<^verbatim>\<open>9\<close>, and a
  string with other digits is read as malformed.
\<close>

fun spaces_to_ascii :: "string \<Rightarrow> string" where
  "spaces_to_ascii (a # b # c # r) =
     (if is_space2 a b then CHR '' '' # spaces_to_ascii (c # r)
      else if is_space3 a b c then CHR '' '' # spaces_to_ascii r
      else a # spaces_to_ascii (b # c # r))"
| "spaces_to_ascii [a, b] = (if is_space2 a b then '' '' else [a, b])"
| "spaces_to_ascii s = s"

definition is_c_space :: "char \<Rightarrow> bool" where
  "is_c_space c = (let n = (of_char c :: nat) in (9 \<le> n \<and> n \<le> 13) \<or> n = 32)"

definition c_strip :: "string \<Rightarrow> string" where
  "c_strip s = rev (dropWhile is_c_space (rev (dropWhile is_c_space s)))"

definition is_digit :: "char \<Rightarrow> bool" where
  "is_digit c = (let n = (of_char c :: nat) in 48 \<le> n \<and> n \<le> 57)"

definition digits_value :: "string \<Rightarrow> int" where
  "digits_value ds = foldl (\<lambda>a c. 10 * a + (of_char c - 48)) 0 ds"

text \<open>
  An underscore is allowed between two digits only; the underscores are then removed.
  \<open>underscores prev s\<close> is \<open>None\<close> when one of them is misplaced, \<open>prev\<close> being the character
  before \<open>s\<close>.
\<close>

fun underscores :: "char \<Rightarrow> string \<Rightarrow> string option" where
  "underscores prev [] = (if prev = CHR ''_'' then None else Some [])"
| "underscores prev (c # cs) =
     (if c = CHR ''_'' then (if is_digit prev then underscores c cs else None)
      else if prev = CHR ''_'' \<and> \<not> is_digit c then None
      else map_option ((#) c) (underscores c cs))"

definition lower :: "char \<Rightarrow> char" where
  "lower c = (let n = (of_char c :: nat) in if 65 \<le> n \<and> n \<le> 90 then char_of (n + 32) else c)"

text \<open>The sign in front of a number: \<open>(negative, rest)\<close>.\<close>

fun sign :: "string \<Rightarrow> bool \<times> string" where
  "sign (c # cs) =
     (if c = CHR ''-'' then (True, cs) else if c = CHR ''+'' then (False, cs) else (False, c # cs))"
| "sign [] = (False, [])"

text \<open>
  The exponent part, empty or \<^verbatim>\<open>e\<close>, an optional sign and at least one digit.
\<close>

definition exponent :: "string \<Rightarrow> int option" where
  "exponent s =
     (case s of
        [] \<Rightarrow> Some 0
      | c # cs \<Rightarrow>
          if lower c = CHR ''e'' then
            (let (neg, ds) = sign cs in
               if ds \<noteq> [] \<and> list_all is_digit ds
               then Some (if neg then - digits_value ds else digits_value ds)
               else None)
          else None)"

text \<open>
  A decimal number: digits, an optional point and digits (one digit at least in all), and
  the exponent. The value is exact.
\<close>

definition decimal :: "string \<Rightarrow> rat option" where
  "decimal s =
     (let ip = takeWhile is_digit s;
          r1 = dropWhile is_digit s;
          (fp, r2) = (case r1 of
                        [] \<Rightarrow> ([], [])
                      | c # cs \<Rightarrow> if c = CHR ''.'' then (takeWhile is_digit cs, dropWhile is_digit cs)
                                  else ([], r1))
      in if ip = [] \<and> fp = [] then None
         else (case exponent r2 of
                 None \<Rightarrow> None
               | Some ex \<Rightarrow>
                   let m = of_int (digits_value (ip @ fp)); e = ex - int (length fp)
                   in Some (if 0 \<le> e then m * 10 ^ nat e else m / 10 ^ nat (- e))))"

definition float_of_str :: "string \<Rightarrow> pyfloat result" where
  "float_of_str s =
     (case underscores CHR '' '' (c_strip (spaces_to_ascii s)) of
        None \<Rightarrow> Inl ValueError
      | Some t \<Rightarrow>
          let (neg, u) = sign t; w = map lower u in
            if w = ''inf'' \<or> w = ''infinity'' then Inr (if neg then NegInf else PosInf)
            else if w = ''nan'' then Inr NaN
            else (case decimal u of
                    None \<Rightarrow> Inl ValueError
                  | Some q \<Rightarrow>
                      (case round_double (if neg then - q else q) of
                         None \<Rightarrow> Inr (if neg then NegInf else PosInf)
                       | Some r \<Rightarrow> Inr (Finite r))))"

text \<open>
  \<^verbatim>\<open>int(s)\<close> in base ten: an optional sign and digits, single underscores between digits.
  The limit that recent versions of Python put on the number of digits is not modelled.
\<close>

definition int_of_str :: "string \<Rightarrow> int result" where
  "int_of_str s =
     (let (neg, u) = sign (c_strip (spaces_to_ascii s)) in
        case underscores CHR '' '' u of
          None \<Rightarrow> Inl ValueError
        | Some ds \<Rightarrow>
            if ds \<noteq> [] \<and> list_all is_digit ds
            then Inr (if neg then - digits_value ds else digits_value ds)
            else Inl ValueError)"

section \<open>The revenue normaliser\<close>

text \<open>
  \<^verbatim>\<open>
  def parse_revenue(self, revenue_str):
      if isinstance(revenue_str, (int, float)):
          return float(revenue_str)
      cleaned = revenue_str.replace('EUR', '').replace(',', '').replace(' ', '').strip()
      try:
          return float(cleaned)
      except:
          return 0.0
  \<close>
  (\<^verbatim>\<open>EUR\<close> stands for the euro sign U+20AC, in UTF-8 the bytes E2 82 AC.) A \<^verbatim>\<open>bool\<close> is an
  \<^verbatim>\<open>int\<close> for \<^verbatim>\<open>isinstance\<close>. The call of \<^verbatim>\<open>replace\<close> is outside the \<^verbatim>\<open>try\<close>: on a value
  that has no such method it raises \<^verbatim>\<open>AttributeError\<close>.
\<close>

definition euro :: string where
  "euro = [CHR 0xE2, CHR 0x82, CHR 0xAC]"

definition cleaned :: "string \<Rightarrow> string" where
  "cleaned s = strip (replace '' '' [] (replace '','' [] (replace euro [] s)))"

definition parse_revenue :: "pyval \<Rightarrow> pyfloat result" where
  "parse_revenue v =
     (case v of
        PBool b \<Rightarrow> float_of_int (if b then 1 else 0)
      | PInt n \<Rightarrow> float_of_int n
      | PFloat f \<Rightarrow> Inr f
      | PStr s \<Rightarrow> (case float_of_str (cleaned s) of
                    Inl e \<Rightarrow> Inr (Finite 0)
                  | Inr f \<Rightarrow> Inr f)
      | PNone \<Rightarrow> Inl AttributeError
      | PList xs \<Rightarrow> Inl AttributeError
      | PDict d \<Rightarrow> Inl AttributeError)"

section \<open>Expressions on parsed JSON\<close>

text \<open>
  A dictionary is the list of its items in insertion order, with distinct keys. The
  operations below are the ones the loader applies to the records of a file, with the
  exception each raises on a value of another type.
\<close>

text \<open>\<^verbatim>\<open>v[k]\<close> for a string \<open>k\<close>.\<close>

definition subscript :: "pyval \<Rightarrow> string \<Rightarrow> pyval result" where
  "subscript v k =
     (case v of
        PDict d \<Rightarrow> (case map_of d k of None \<Rightarrow> Inl (KeyError k) | Some x \<Rightarrow> Inr x)
      | _ \<Rightarrow> Inl TypeError)"

text \<open>\<^verbatim>\<open>v[a][b]\<close>.\<close>

definition subscript2 :: "pyval \<Rightarrow> string \<Rightarrow> string \<Rightarrow> pyval result" where
  "subscript2 v a b = bind (subscript v a) (\<lambda>x. subscript x b)"

text \<open>\<^verbatim>\<open>v.get(k, dflt)\<close>: only a dictionary has the method.\<close>

definition get :: "pyval \<Rightarrow> string \<Rightarrow> pyval \<Rightarrow> pyval result" where
  "get v k dflt =
     (case v of
        PDict d \<Rightarrow> Inr (case map_of d k of None \<Rightarrow> dflt | Some x \<Rightarrow> x)
      | _ \<Rightarrow> Inl AttributeError)"

text \<open>
  The characters of a string: in UTF-8 the first byte of a character tells how many bytes
  follow it.
\<close>

fun utf8_chars :: "string \<Rightarrow> string list" where
  "utf8_chars [] = []"
| "utf8_chars (c # cs) =
     (let b = (of_char c :: nat);
          n = (if b < 128 then 0 else if b < 224 then 1 else if b < 240 then 2 else 3)
      in (c # take n cs) # utf8_chars (drop n cs))"

text \<open>
  \<^verbatim>\<open>for x in v\<close>: the elements of a list, the keys of a dictionary, the characters of a
  string; \<^verbatim>\<open>TypeError\<close> on a value that is not iterable.
\<close>

definition iter :: "pyval \<Rightarrow> pyval list result" where
  "iter v =
     (case v of
        PList xs \<Rightarrow> Inr xs
      | PDict d \<Rightarrow> Inr (map (\<lambda>kv. PStr (fst kv)) d)
      | PStr s \<Rightarrow> Inr (map PStr (utf8_chars s))
      | _ \<Rightarrow> Inl TypeError)"

text \<open>\<^verbatim>\<open>v > 0\<close>: defined on numbers, \<^verbatim>\<open>TypeError\<close> otherwise.\<close>

definition greater_than_zero :: "pyval \<Rightarrow> bool result" where
  "greater_than_zero v =
     (case v of
        PBool b \<Rightarrow> Inr b
      | PInt n \<Rightarrow> Inr (0 < n)
      | PFloat f \<Rightarrow> Inr (case f of Finite q \<Rightarrow> 0 < q | PosInf \<Rightarrow> True | _ \<Rightarrow> False)
      | _ \<Rightarrow> Inl TypeError)"

text \<open>\<^verbatim>\<open>v.split(sep)\<close>: only a string has the method.\<close>

definition str_split :: "pyval \<Rightarrow> string \<Rightarrow> string list result" where
  "str_split v sep = (case v of PStr s \<Rightarrow> Inr (split sep s) | _ \<Rightarrow> Inl AttributeError)"

text \<open>
  The keyword arguments of a call are evaluated from left to right; the first one that
  raises ends the call.
\<close>

fun args :: "(string \<times> pyval result) list \<Rightarrow> (string \<times> pyval) list result" where
  "args [] = Inr []"
| "args ((k, Inl e) # r) = Inl e"
| "args ((k, Inr v) # r) = (case args r of Inl e \<Rightarrow> Inl e | Inr vs \<Rightarrow> Inr ((k, v) # vs))"

section \<open>The graph store\<close>

text \<open>
  The store is the external collaborator of the loader. It is modelled as far as the
  loader's statements use it: a node has one label and properties, a relationship has a
  type, a source node, a target node and properties; a node is identified by its position
  in the list of nodes. The store runs every statement it is given: a failure of the
  connection, or a value the engine would refuse as a property or as a key (a dictionary,
  a list of mixed types, an integer beyond 64 bits, a null key in a \<^verbatim>\<open>MERGE\<close>), is outside
  the model. A property holds the parameter as it was passed, and two property values
  match when they are the same value; the engine also takes an integer and a float of
  the same value for equal, and matches nothing with a null or a NaN, so keys of mixed
  number types, null keys and NaN keys are outside the model as well. An index changes
  no node and no relationship, so the model has none.
\<close>

type_synonym props = "(string \<times> pyval) list"

record node =
  nlabel :: string
  nprops :: props

record rel =
  rtype :: string
  rsrc :: nat
  rdst :: nat
  rprops :: props

record graph =
  nodes :: "node list"
  rels :: "rel list"

definition empty_graph :: graph where
  "empty_graph = \<lparr>nodes = [], rels = []\<rparr>"

text \<open>\<^verbatim>\<open>SET x.k1 = v1, x.k2 = v2, ...\<close>: each property is overwritten or added.\<close>

definition set_props :: "props \<Rightarrow> props \<Rightarrow> props" where
  "set_props new old = fold (\<lambda>kv ps. AList.update (fst kv) (snd kv) ps) new old"

text \<open>The pattern \<^verbatim>\<open>(x:Label {key: $value})\<close>.\<close>

definition has_key :: "string \<Rightarrow> string \<Rightarrow> pyval \<Rightarrow> node \<Rightarrow> bool" where
  "has_key l k v n = (nlabel n = l \<and> map_of (nprops n) k = Some v)"

text \<open>\<^verbatim>\<open>MATCH (x:Label {key: $value})\<close>: the nodes that match, by position.\<close>

definition match_nodes :: "string \<Rightarrow> string \<Rightarrow> pyval \<Rightarrow> graph \<Rightarrow> nat list" where
  "match_nodes l k v g = filter (\<lambda>i. has_key l k v (nodes g ! i)) [0..<length (nodes g)]"

text \<open>
  \<^verbatim>\<open>MERGE (x:Label {key: $value}) SET x.k1 = v1, ...\<close>: when no node matches, one is
  created with the label and the key; the properties are then set on every node that
  matches.
\<close>

definition merge_node :: "string \<Rightarrow> string \<Rightarrow> pyval \<Rightarrow> props \<Rightarrow> graph \<Rightarrow> graph" where
  "merge_node l k v ps g =
     (if match_nodes l k v g = []
      then g\<lparr>nodes := nodes g @ [\<lparr>nlabel = l, nprops = set_props ps [(k, v)]\<rparr>]\<rparr>
      else g\<lparr>nodes := map (\<lambda>n. if has_key l k v n then n\<lparr>nprops := set_props ps (nprops n)\<rparr> else n)
                          (nodes g)\<rparr>)"

text \<open>
  \<^verbatim>\<open>MERGE (a)-[r:TYPE]->(b) SET r.k1 = v1, ...\<close> for one pair of nodes: when no
  relationship of the type goes from \<open>a\<close> to \<open>b\<close>, one is created; the properties are then
  set on every relationship of the type from \<open>a\<close> to \<open>b\<close>.
\<close>

definition connects :: "string \<Rightarrow> nat \<Rightarrow> nat \<Rightarrow> rel \<Rightarrow> bool" where
  "connects t a b r = (rtype r = t \<and> rsrc r = a \<and> rdst r = b)"

definition merge_rel :: "string \<Rightarrow> props \<Rightarrow> nat \<times> nat \<Rightarrow> graph \<Rightarrow> graph" where
  "merge_rel t ps ab g =
     (if list_ex (connects t (fst ab) (snd ab)) (rels g)
      then g\<lparr>rels := map (\<lambda>r. if connects t (fst ab) (snd ab) r
                                then r\<lparr>rprops := set_props ps (rprops r)\<rparr> else r) (rels g)\<rparr>
      else g\<lparr>rels := rels g @ [\<lparr>rtype = t, rsrc = fst ab, rdst = snd ab, rprops = set_props ps []\<rparr>]\<rparr>)"

text \<open>
  \<^verbatim>\<open>MATCH (a:La {ka: $va}) MATCH (b:Lb {kb: $vb}) MERGE (a)-[r:TYPE]->(b) SET ...\<close>: the
  relationship is merged for every pair of matching nodes, so for none when one of the
  two patterns matches no node.
\<close>

definition link ::
  "string \<Rightarrow> string \<times> string \<times> pyval \<Rightarrow> string \<times> string \<times> pyval \<Rightarrow> props \<Rightarrow> graph \<Rightarrow> graph" where
  "link t a b ps g =
     fold (merge_rel t ps)
       (List.product (match_nodes (fst a) (fst (snd a)) (snd (snd a)) g)
                     (match_nodes (fst b) (fst (snd b)) (snd (snd b)) g)) g"

text \<open>What \<^verbatim>\<open>verify_data\<close> reports: the nodes of a label, the relationships of a type.\<close>

definition node_count :: "string \<Rightarrow> graph \<Rightarrow> nat" where
  "node_count l g = length (filter (\<lambda>n. nlabel n = l) (nodes g))"

definition rel_count :: "string \<Rightarrow> graph \<Rightarrow> nat" where
  "rel_count t g = length (filter (\<lambda>r. rtype r = t) (rels g))"


text \<open>
  A node with the label and the key is in the graph, and every such node has the
  properties \<open>ps\<close>.
\<close>

definition stored :: "string \<Rightarrow> string \<Rightarrow> pyval \<Rightarrow> props \<Rightarrow> graph \<Rightarrow> bool" where
  "stored l k v ps g =
     (list_ex (has_key l k v) (nodes g) \<and>
      list_all (\<lambda>n. \<not> has_key l k v n \<or>
                    list_all (\<lambda>kv. map_of (nprops n) (fst kv) = Some (snd kv)) ps) (nodes g))"

text \<open>\<^verbatim>\<open>MATCH (n) DETACH DELETE n\<close>.\<close>

definition clear_database :: "graph \<Rightarrow> graph" where
  "clear_database g = g\<lparr>nodes := [], rels := []\<rparr>"

text \<open>The five \<^verbatim>\<open>CREATE INDEX ... IF NOT EXISTS\<close> statements.\<close>

definition create_indexes :: "graph \<Rightarrow> graph" where
  "create_indexes g = g"

section \<open>The environment of a run\<close>

text \<open>
  What the loader reads from outside: \<^verbatim>\<open>os.path.exists\<close>, \<^verbatim>\<open>glob.glob\<close> (its result in
  the order the file system lists it), \<^verbatim>\<open>open\<close> followed by \<^verbatim>\<open>json.load\<close> (\<open>None\<close> when
  either raises) and the description service (the text segments of an image, \<open>None\<close> when
  it raises). \<open>str_of\<close> is what an f-string writes for a value that is not a string; the
  text Python writes for a number, a list or a dictionary is not modelled.
\<close>

record env =
  path_exists :: "string \<Rightarrow> bool"
  glob :: "string \<Rightarrow> string list"
  read_json :: "string \<Rightarrow> pyval option"
  process_image :: "string \<Rightarrow> string list option"
  str_of :: "pyval \<Rightarrow> string"

section \<open>Statements with state and exceptions\<close>

text \<open>
  A step of the loader takes the graph and returns an exception or a value, with the
  graph as it is then: the statements run before an exception stay in the store.
\<close>

type_synonym 'a io = "graph \<Rightarrow> 'a result \<times> graph"

text \<open>
  \<^verbatim>\<open>session.run(statement, k1=e1, ...)\<close>: the arguments are evaluated first, and the
  statement runs when none of them raises.
\<close>

definition run :: "(graph \<Rightarrow> graph) result \<Rightarrow> unit io" where
  "run stmt g = (case stmt of Inl e \<Rightarrow> (Inl e, g) | Inr f \<Rightarrow> (Inr (), f g))"

definition seq :: "unit io \<Rightarrow> unit io \<Rightarrow> unit io" where
  "seq m k g = (case m g of (Inl e, g') \<Rightarrow> (Inl e, g') | (Inr u, g') \<Rightarrow> k g')"

fun for_each :: "('a \<Rightarrow> unit io) \<Rightarrow> 'a list \<Rightarrow> unit io" where
  "for_each body [] g = (Inr (), g)"
| "for_each body (x # xs) g =
     (case body x g of (Inl e, g') \<Rightarrow> (Inl e, g') | (Inr u, g') \<Rightarrow> for_each body xs g')"

text \<open>\<^verbatim>\<open>for x in e: body\<close>, where evaluating or iterating \<open>e\<close> may raise.\<close>

definition for_in :: "pyval list result \<Rightarrow> (pyval \<Rightarrow> unit io) \<Rightarrow> unit io" where
  "for_in xs body g = (case xs of Inl e \<Rightarrow> (Inl e, g) | Inr l \<Rightarrow> for_each body l g)"

section \<open>The file resolver\<close>

text \<open>
  \<^verbatim>\<open>
  def _find_file(self, default_path, pattern):
      if os.path.exists(default_path):
          return default_path
      candidates = glob.glob(f"data/{pattern}")
      if candidates:
          return candidates[0]
      return None
  \<close>
\<close>

definition find_file :: "env \<Rightarrow> string \<Rightarrow> string \<Rightarrow> string option" where
  "find_file env default_path pattern =
     (if path_exists env default_path then Some default_path
      else (case glob env (''data/'' @ pattern) of
              [] \<Rightarrow> None
            | c # cs \<Rightarrow> Some c))"

text \<open>
  The file of a category is absent or cannot be read: no path is found, or the path is
  empty, or opening or parsing the file raises.
\<close>

definition no_data :: "env \<Rightarrow> string \<Rightarrow> string \<Rightarrow> bool" where
  "no_data env default_path pattern =
     (case find_file env default_path pattern of
        None \<Rightarrow> True
      | Some actual_file \<Rightarrow> actual_file = [] \<or> read_json env actual_file = None)"

section \<open>The products loader\<close>

text \<open>
  The arguments of the first statement of \<^verbatim>\<open>load_products\<close>, in the order they are written:
  the product id, and the twelve properties set on the node. A key that is missing raises
  \<^verbatim>\<open>KeyError\<close>.
\<close>

definition product_args :: "pyval \<Rightarrow> (pyval \<times> props) result" where
  "product_args product =
     bind (subscript product ''product_id'') (\<lambda>product_id.
     bind (args
       [(''name'', subscript product ''name''),
        (''category'', subscript product ''category''),
        (''continuous_power'', subscript2 product ''power_output'' ''continuous''),
        (''peak_power'', subscript2 product ''power_output'' ''peak''),
        (''battery_capacity'', subscript2 product ''specifications'' ''battery_capacity''),
        (''battery_type'', subscript2 product ''specifications'' ''battery_type''),
        (''solar_capacity'', subscript2 product ''specifications'' ''solar_panel_capacity''),
        (''total_cost'', subscript2 product ''private_cost_breakdown'' ''private_total_cost''),
        (''avg_selling_price'', subscript2 product ''pricing'' ''average_selling_price''),
        (''margin_percentage'', subscript2 product ''pricing'' ''margin_percentage''),
        (''co2_reduction'', subscript product ''co2_reduction''),
        (''rental_available'', subscript product ''rental_available'')])
       (\<lambda>ps. Inr (product_id, ps)))"

text \<open>
  \<^verbatim>\<open>MERGE (p:Product {product_id: $product_id}) SET p.name = $name, ...\<close>
\<close>

definition product_node :: "pyval \<Rightarrow> (graph \<Rightarrow> graph) result" where
  "product_node product =
     bind (product_args product)
       (\<lambda>a. Inr (merge_node ''Product'' ''product_id'' (fst a) (snd a)))"

text \<open>
  \<^verbatim>\<open>MERGE (b:BatteryType {type: $battery_type}) WITH b
  MATCH (p:Product {product_id: $product_id}) MERGE (p)-[:USES_BATTERY]->(b)\<close>
\<close>

definition product_battery :: "pyval \<Rightarrow> (graph \<Rightarrow> graph) result" where
  "product_battery product =
     bind (subscript2 product ''specifications'' ''battery_type'') (\<lambda>battery_type.
     bind (subscript product ''product_id'') (\<lambda>product_id.
       Inr (\<lambda>g. link ''USES_BATTERY'' (''Product'', ''product_id'', product_id)
                   (''BatteryType'', ''type'', battery_type) []
                   (merge_node ''BatteryType'' ''type'' battery_type [] g))))"

definition load_product :: "pyval \<Rightarrow> unit io" where
  "load_product product = seq (run (product_node product)) (run (product_battery product))"

text \<open>
  \<^verbatim>\<open>load_products\<close>: \<^verbatim>\<open>False\<close> when no file is found (\<^verbatim>\<open>if not actual_file\<close>, which holds
  for \<^verbatim>\<open>None\<close> and for an empty path) and when opening or parsing the file raises; these
  are the only exceptions it handles. The loop over \<^verbatim>\<open>data.get("products", [])\<close> is
  outside the \<^verbatim>\<open>try\<close>.
\<close>

definition load_products :: "env \<Rightarrow> string \<Rightarrow> bool io" where
  "load_products env products_file g =
     (case find_file env products_file ''*product*.json'' of
        None \<Rightarrow> (Inr False, g)
      | Some actual_file \<Rightarrow>
          if actual_file = [] then (Inr False, g)
          else (case read_json env actual_file of
                  None \<Rightarrow> (Inr False, g)
                | Some data \<Rightarrow>
                    (case for_in (bind (get data ''products'' (PList [])) iter) load_product g of
                       (Inl e, g') \<Rightarrow> (Inl e, g')
                     | (Inr u, g') \<Rightarrow> (Inr True, g'))))"

section \<open>The events loader\<close>

subsection \<open>Trade shows\<close>

definition trade_show_args :: "pyval \<Rightarrow> (pyval \<times> props) result" where
  "trade_show_args event =
     bind (subscript event ''event_id'') (\<lambda>event_id.
     bind (args
       [(''name'', subscript event ''event_name''),
        (''type'', subscript event ''type''),
        (''location'', subscript event ''location''),
        (''date'', subscript event ''date''),
        (''leads_generated'', subscript2 event ''sales_data'' ''leads_generated''),
        (''total_sales'',
           bind (bind (subscript2 event ''sales_data'' ''total_sales'') parse_revenue)
             (\<lambda>f. Inr (PFloat f)))])
       (\<lambda>ps. Inr (event_id, ps)))"

text \<open>
  \<^verbatim>\<open>MERGE (t:TradeShow {event_id: $event_id}) SET t.name = $name, ...\<close>
\<close>

definition trade_show_node :: "pyval \<Rightarrow> (graph \<Rightarrow> graph) result" where
  "trade_show_node event =
     bind (trade_show_args event)
       (\<lambda>a. Inr (merge_node ''TradeShow'' ''event_id'' (fst a) (snd a)))"

text \<open>
  \<^verbatim>\<open>MATCH (t:TradeShow {event_id: $event_id}) MATCH (p:Product {product_id: $product_id})
  MERGE (p)-[:DISPLAYED_AT]->(t)\<close>
\<close>

definition displayed :: "pyval \<Rightarrow> pyval \<Rightarrow> unit io" where
  "displayed event product_id =
     run (bind (subscript event ''event_id'') (\<lambda>event_id.
       Inr (link ''DISPLAYED_AT'' (''Product'', ''product_id'', product_id)
              (''TradeShow'', ''event_id'', event_id) [])))"

text \<open>
  \<^verbatim>\<open>sale_id = f"{event['event_id']}_{customer_type}"\<close>
\<close>

definition customer_types :: "string list" where
  "customer_types = [''particuliers'', ''entreprises'', ''collectivites'']"

definition py_str :: "env \<Rightarrow> pyval \<Rightarrow> string" where
  "py_str env v = (case v of PStr s \<Rightarrow> s | _ \<Rightarrow> str_of env v)"

definition sale_id :: "env \<Rightarrow> pyval \<Rightarrow> string \<Rightarrow> string" where
  "sale_id env event_id customer_type = py_str env event_id @ ''_'' @ customer_type"

text \<open>
  \<^verbatim>\<open>MERGE (s:Sale {sale_id: $sale_id}) SET s.customer_type = $customer_type, ...
  WITH s MATCH (t:TradeShow {event_id: $event_id}) MERGE (s)-[:SOLD_AT]->(t)\<close>
\<close>

definition sale_node :: "string \<Rightarrow> string \<Rightarrow> pyval \<Rightarrow> pyval \<Rightarrow> (graph \<Rightarrow> graph) result" where
  "sale_node sid customer_type sales event =
     bind (subscript sales ''units'') (\<lambda>units.
     bind (bind (subscript sales ''total_revenue'') parse_revenue) (\<lambda>total_revenue.
     bind (subscript event ''event_id'') (\<lambda>event_id.
       Inr (\<lambda>g. link ''SOLD_AT'' (''Sale'', ''sale_id'', PStr sid)
                   (''TradeShow'', ''event_id'', event_id) []
                   (merge_node ''Sale'' ''sale_id'' (PStr sid)
                      [(''customer_type'', PStr customer_type), (''units'', units),
                       (''total_revenue'', PFloat total_revenue)] g)))))"

text \<open>
  One entry of \<^verbatim>\<open>sales.get("products", [])\<close>:
  \<^verbatim>\<open>
  parts = product_str.split(" x")
  if len(parts) == 2:
      product_id = parts[0]
      quantity = int(parts[1])
      session.run(MATCH (s:Sale {sale_id: $sale_id}) MATCH (p:Product {product_id: $product_id})
                  MERGE (s)-[r:INCLUDES_PRODUCT]->(p) SET r.quantity = $quantity)
  \<close>
\<close>

definition sale_product :: "string \<Rightarrow> pyval \<Rightarrow> unit io" where
  "sale_product sid product_str g =
     (case str_split product_str '' x'' of
        Inl e \<Rightarrow> (Inl e, g)
      | Inr parts \<Rightarrow>
          if length parts = 2
          then run (bind (int_of_str (parts ! 1)) (\<lambda>quantity.
                 Inr (link ''INCLUDES_PRODUCT'' (''Sale'', ''sale_id'', PStr sid)
                        (''Product'', ''product_id'', PStr (parts ! 0))
                        [(''quantity'', PInt quantity)]))) g
          else (Inr (), g))"

text \<open>
  The body of \<^verbatim>\<open>for customer_type in ["particuliers", "entreprises", "collectivites"]\<close>:
  \<^verbatim>\<open>
  sales = event["sales_data"]["sales_closed"].get(customer_type, {})
  if sales.get("units", 0) > 0:
      ...
  \<close>
\<close>

definition sale_units_positive :: "pyval \<Rightarrow> string \<Rightarrow> (pyval \<times> bool) result" where
  "sale_units_positive event customer_type =
     bind (subscript2 event ''sales_data'' ''sales_closed'') (\<lambda>closed.
     bind (get closed customer_type (PDict [])) (\<lambda>sales.
     bind (get sales ''units'' (PInt 0)) (\<lambda>units.
     bind (greater_than_zero units) (\<lambda>positive. Inr (sales, positive)))))"

definition load_sale :: "env \<Rightarrow> pyval \<Rightarrow> string \<Rightarrow> unit io" where
  "load_sale env event customer_type g =
     (case sale_units_positive event customer_type of
        Inl e \<Rightarrow> (Inl e, g)
      | Inr sp \<Rightarrow>
          if snd sp then
            (case subscript event ''event_id'' of
               Inl e \<Rightarrow> (Inl e, g)
             | Inr event_id \<Rightarrow>
                 seq (run (sale_node (sale_id env event_id customer_type) customer_type (fst sp) event))
                     (for_in (bind (get (fst sp) ''products'' (PList [])) iter)
                        (sale_product (sale_id env event_id customer_type))) g)
          else (Inr (), g))"

definition load_trade_show :: "env \<Rightarrow> pyval \<Rightarrow> unit io" where
  "load_trade_show env event =
     seq (run (trade_show_node event))
       (seq (for_in (bind (bind (subscript event ''greenpower_participation'')
                             (\<lambda>p. get p ''models_displayed'' (PList []))) iter)
               (displayed event))
            (for_each (load_sale env event) customer_types))"

subsection \<open>Powered events\<close>

definition event_args :: "pyval \<Rightarrow> (pyval \<times> props) result" where
  "event_args event =
     bind (subscript event ''event_id'') (\<lambda>event_id.
     bind (args
       [(''name'', subscript event ''event_name''),
        (''type'', subscript event ''type''),
        (''location'', subscript event ''location''),
        (''date'', subscript event ''date''),
        (''attendees'',
           bind (subscript event ''power_deployment'') (\<lambda>d. get d ''attendees'' (PStr ''N/A''))),
        (''runtime'', subscript2 event ''power_deployment'' ''runtime''),
        (''fuel_saved'', subscript2 event ''power_deployment'' ''fuel_saved''),
        (''co2_reduction'', subscript2 event ''power_deployment'' ''co2_reduction'')])
       (\<lambda>ps. Inr (event_id, ps)))"

text \<open>
  \<^verbatim>\<open>MERGE (e:Event {event_id: $event_id}) SET e.name = $name, ...\<close>
\<close>

definition event_node :: "pyval \<Rightarrow> (graph \<Rightarrow> graph) result" where
  "event_node event =
     bind (event_args event)
       (\<lambda>a. Inr (merge_node ''Event'' ''event_id'' (fst a) (snd a)))"

text \<open>
  \<^verbatim>\<open>MATCH (e:Event {event_id: $event_id}) MATCH (p:Product {product_id: $product_id})
  MERGE (p)-[r:DEPLOYED_AT]->(e) SET r.quantity = $quantity\<close>
\<close>

definition deployed_at :: "pyval \<Rightarrow> pyval \<Rightarrow> int \<Rightarrow> graph \<Rightarrow> graph" where
  "deployed_at product_id event_id quantity =
     link ''DEPLOYED_AT'' (''Product'', ''product_id'', product_id)
       (''Event'', ''event_id'', event_id) [(''quantity'', PInt quantity)]"

text \<open>
  One entry of \<^verbatim>\<open>event["power_deployment"]["models_used"]\<close>:
  \<^verbatim>\<open>
  parts = model_str.split(" x")
  if len(parts) == 2:
      product_id = parts[0]
      quantity = int(parts[1])
      session.run(... SET r.quantity = $quantity, event_id=event["event_id"], ...)
  else:
      product_id = model_str
      session.run(... SET r.quantity = 1, event_id=event["event_id"], ...)
  \<close>
\<close>

definition model_used :: "pyval \<Rightarrow> pyval \<Rightarrow> unit io" where
  "model_used event model_str g =
     (case str_split model_str '' x'' of
        Inl e \<Rightarrow> (Inl e, g)
      | Inr parts \<Rightarrow>
          if length parts = 2
          then run (bind (int_of_str (parts ! 1)) (\<lambda>quantity.
                    bind (subscript event ''event_id'') (\<lambda>event_id.
                      Inr (deployed_at (PStr (parts ! 0)) event_id quantity)))) g
          else run (bind (subscript event ''event_id'') (\<lambda>event_id.
                      Inr (deployed_at model_str event_id 1))) g)"

definition load_powered_event :: "pyval \<Rightarrow> unit io" where
  "load_powered_event event =
     seq (run (event_node event))
       (for_in (bind (subscript2 event ''power_deployment'' ''models_used'') iter)
          (model_used event))"

text \<open>
  \<^verbatim>\<open>load_events\<close>: the file is resolved and read as in \<^verbatim>\<open>load_products\<close>; the two loops
  are outside the \<^verbatim>\<open>try\<close>.
\<close>

definition load_events :: "env \<Rightarrow> string \<Rightarrow> bool io" where
  "load_events env events_file g =
     (case find_file env events_file ''*event*.json'' of
        None \<Rightarrow> (Inr False, g)
      | Some actual_file \<Rightarrow>
          if actual_file = [] then (Inr False, g)
          else (case read_json env actual_file of
                  None \<Rightarrow> (Inr False, g)
                | Some data \<Rightarrow>
                    (case seq (for_in (bind (get data ''trade_shows_exhibitions'' (PList [])) iter)
                                 (load_trade_show env))
                              (for_in (bind (get data ''powered_events'' (PList [])) iter)
                                 load_powered_event) g of
                       (Inl e, g') \<Rightarrow> (Inl e, g')
                     | (Inr u, g') \<Rightarrow> (Inr True, g'))))"

section \<open>The R&D projects loader\<close>

definition project_args :: "pyval \<Rightarrow> (pyval \<times> props) result" where
  "project_args project =
     bind (subscript project ''project_id'') (\<lambda>project_id.
     bind (args
       [(''name'', subscript project ''project_name''),
        (''status'', subscript project ''status''),
        (''objective'', subscript project ''objective''),
        (''projected_savings'', get project ''projected_annual_savings'' (PStr ''N/A''))])
       (\<lambda>ps. Inr (project_id, ps)))"

text \<open>
  \<^verbatim>\<open>MERGE (r:RDProject {project_id: $project_id}) SET r.name = $name, ...\<close>
\<close>

definition project_node :: "pyval \<Rightarrow> (graph \<Rightarrow> graph) result" where
  "project_node project =
     bind (project_args project)
       (\<lambda>a. Inr (merge_node ''RDProject'' ''project_id'' (fst a) (snd a)))"

text \<open>
  \<^verbatim>\<open>MATCH (r:RDProject {project_id: $project_id}) MATCH (p:Product {product_id: $product_id})
  MERGE (r)-[:TARGETS_PRODUCT]->(p)\<close>
\<close>

definition targets_product :: "pyval \<Rightarrow> pyval \<Rightarrow> unit io" where
  "targets_product project product_id =
     run (bind (subscript project ''project_id'') (\<lambda>project_id.
       Inr (link ''TARGETS_PRODUCT'' (''RDProject'', ''project_id'', project_id)
              (''Product'', ''product_id'', product_id) [])))"

definition load_project :: "pyval \<Rightarrow> unit io" where
  "load_project project =
     seq (run (project_node project))
       (for_in (bind (get project ''target_products'' (PList [])) iter)
          (targets_product project))"

definition load_rd_projects :: "env \<Rightarrow> string \<Rightarrow> bool io" where
  "load_rd_projects env rd_file g =
     (case find_file env rd_file ''*rd*.json'' of
        None \<Rightarrow> (Inr False, g)
      | Some actual_file \<Rightarrow>
          if actual_file = [] then (Inr False, g)
          else (case read_json env actual_file of
                  None \<Rightarrow> (Inr False, g)
                | Some data \<Rightarrow>
                    (case for_in (bind (get data ''active_rd_projects'' (PList [])) iter)
                            load_project g of
                       (Inl e, g') \<Rightarrow> (Inl e, g')
                     | (Inr u, g') \<Rightarrow> (Inr True, g'))))"

section \<open>The image loader\<close>

text \<open>\<^verbatim>\<open>os.path.basename\<close>: what follows the last slash.\<close>

definition basename :: "string \<Rightarrow> string" where
  "basename p = rev (takeWhile (\<lambda>c. c \<noteq> CHR ''/'') (rev p))"

text \<open>\<^verbatim>\<open>"\n".join(segments)\<close>.\<close>

fun join_lines :: "string list \<Rightarrow> string" where
  "join_lines [] = []"
| "join_lines [s] = s"
| "join_lines (s # t # r) = s @ [CHR 0x0A] @ join_lines (t # r)"

text \<open>
  \<^verbatim>\<open>load_image\<close>: \<^verbatim>\<open>False\<close> when the image does not exist; everything after that is
  inside one \<^verbatim>\<open>try\<close>, so that a failure of the description service gives \<^verbatim>\<open>False\<close> too,
  as does an empty description. \<open>now\<close> is what \<^verbatim>\<open>datetime()\<close> gives in the store.
  \<^verbatim>\<open>MERGE (i:Image {filename: $filename})
  SET i.description = $description, i.path = $path, i.analyzed_at = datetime()\<close>
\<close>

definition load_image :: "env \<Rightarrow> pyval \<Rightarrow> string \<Rightarrow> bool io" where
  "load_image env now image_path g =
     (if \<not> path_exists env image_path then (Inr False, g)
      else (case process_image env image_path of
              None \<Rightarrow> (Inr False, g)
            | Some documents \<Rightarrow>
                if documents = [] then (Inr False, g)
                else (Inr True,
                      merge_node ''Image'' ''filename'' (PStr (basename image_path))
                        [(''description'', PStr (join_lines documents)),
                         (''path'', PStr image_path),
                         (''analyzed_at'', now)] g)))"

section \<open>The orchestrator\<close>

text \<open>
  \<^verbatim>\<open>
  def load_all(self):
      self.clear_database()
      self.create_indexes()
      files_loaded = 0
      if self.load_products():
          files_loaded += 1
      if self.load_events():
          files_loaded += 1
      if self.load_rd_projects():
          files_loaded += 1
      if self.load_image("data/exemple.jpg"):
          files_loaded += 1
      ...
  \<close>
  There is no \<^verbatim>\<open>try\<close> in \<^verbatim>\<open>load_all\<close>: an exception of a loader ends it. The value
  returned here is \<^verbatim>\<open>files_loaded\<close>, which \<^verbatim>\<open>load_all\<close> prints.
\<close>

definition count_loaded :: "bool list \<Rightarrow> nat" where
  "count_loaded bs = length (filter (\<lambda>b. b) bs)"

definition load_all :: "env \<Rightarrow> pyval \<Rightarrow> nat io" where
  "load_all env now g =
     (case load_products env ''data/greenpower_products.json'' (create_indexes (clear_database g)) of
        (Inl e, g1) \<Rightarrow> (Inl e, g1)
      | (Inr b1, g1) \<Rightarrow>
     (case load_events env ''data/greenpower_events.json'' g1 of
        (Inl e, g2) \<Rightarrow> (Inl e, g2)
      | (Inr b2, g2) \<Rightarrow>
     (case load_rd_projects env ''data/greenpower_rd_innovations.json'' g2 of
        (Inl e, g3) \<Rightarrow> (Inl e, g3)
      | (Inr b3, g3) \<Rightarrow>
     (case load_image env now ''data/exemple.jpg'' g3 of
        (Inl e, g4) \<Rightarrow> (Inl e, g4)
      | (Inr b4, g4) \<Rightarrow> (Inr (count_loaded [b1, b2, b3, b4]), g4)))))"

section \<open>Sample data\<close>

text \<open>
  Concrete inputs, at which the theorems below are instantiated. In \<open>no_files\<close> nothing
  exists. In \<open>renamed_files\<close> the default paths are absent and two files match the
  products pattern; the events file found by its pattern holds two empty lists.
\<close>

definition no_files :: env where
  "no_files =
     \<lparr>path_exists = (\<lambda>p. False),
      glob = (\<lambda>p. []),
      read_json = (\<lambda>p. None),
      process_image = (\<lambda>p. None),
      str_of = (\<lambda>v. [])\<rparr>"

definition renamed_files :: env where
  "renamed_files =
     \<lparr>path_exists = (\<lambda>p. False),
      glob = (\<lambda>p. if p = ''data/*product*.json''
                     then [''data/new_products.json'', ''data/all_products.json'']
                     else if p = ''data/*event*.json'' then [''data/events_2024.json'']
                     else []),
      read_json = (\<lambda>p. if p = ''data/events_2024.json''
                          then Some (PDict [(''trade_shows_exhibitions'', PList []),
                                            (''powered_events'', PList [])])
                          else None),
      process_image = (\<lambda>p. None),
      str_of = (\<lambda>v. [])\<rparr>"

text \<open>
  A products file with one record, complete but for \<^verbatim>\<open>pricing.margin_percentage\<close>, and
  an image that the description service describes in two segments.
\<close>

definition incomplete_product :: pyval where
  "incomplete_product =
     PDict
       [(''product_id'', PStr ''PG-M01''),
        (''name'', PStr ''PowerGen Mobile''),
        (''category'', PStr ''mobile''),
        (''power_output'', PDict [(''continuous'', PInt 5), (''peak'', PInt 8)]),
        (''specifications'',
           PDict [(''battery_capacity'', PInt 10), (''battery_type'', PStr ''LFP''),
                  (''solar_panel_capacity'', PInt 2)]),
        (''private_cost_breakdown'', PDict [(''private_total_cost'', PInt 1000)]),
        (''pricing'', PDict [(''average_selling_price'', PInt 2000)]),
        (''co2_reduction'', PInt 3),
        (''rental_available'', PBool True)]"

definition bad_products :: env where
  "bad_products =
     \<lparr>path_exists = (\<lambda>p. p = ''data/greenpower_products.json'' \<or> p = ''data/exemple.jpg''),
      glob = (\<lambda>p. []),
      read_json = (\<lambda>p. if p = ''data/greenpower_products.json''
                          then Some (PDict [(''products'', PList [incomplete_product])])
                          else None),
      process_image = (\<lambda>p. Some [''a generator'', ''on a trailer'']),
      str_of = (\<lambda>v. [])\<rparr>"

text \<open>A graph with a sale and a product, and nothing else.\<close>

definition sale_graph :: graph where
  "sale_graph =
     \<lparr>nodes = [\<lparr>nlabel = ''Sale'', nprops = [(''sale_id'', PStr ''TS1_particuliers'')]\<rparr>,
               \<lparr>nlabel = ''Product'', nprops = [(''product_id'', PStr ''PG-M01'')]\<rparr>],
      rels = []\<rparr>"




section \<open>Properties of the graph store\<close>




lemma rels_merge_node [simp]: "rels (merge_node l k v ps g) = rels g"
  by (simp add: merge_node_def)












lemma nodes_merge_rel [simp]: "nodes (merge_rel t ps ab g) = nodes g"
  by (simp add: merge_rel_def)

lemma nodes_fold_merge_rel [simp]: "nodes (fold (merge_rel t ps) pairs g) = nodes g"
  by (induction pairs arbitrary: g) simp_all

lemma nodes_link [simp]: "nodes (link t a b ps g) = nodes g"
  by (simp add: link_def)

lemma match_nodes_link [simp]: "match_nodes l k v (link t a b ps g) = match_nodes l k v g"
  by (simp add: match_nodes_def)

lemma stored_link [simp]: "stored l k v ps (link t a b ps' g) = stored l k v ps g"
  by (simp add: stored_def)








lemma node_count_merge_node:
  "node_count l' (merge_node l k v ps g) =
     node_count l' g + (if match_nodes l k v g = [] \<and> l' = l then 1 else 0)"
proof -
  let ?f = "\<lambda>n. if has_key l k v n then n\<lparr>nprops := set_props ps (nprops n)\<rparr> else n"
  have "filter (\<lambda>n. nlabel n = l') (map ?f ns) = map ?f (filter (\<lambda>n. nlabel n = l') ns)" for ns
    by (induction ns) auto
  then have "length (filter (\<lambda>n. nlabel n = l') (map ?f ns)) = length (filter (\<lambda>n. nlabel n = l') ns)" for ns
    by simp
  then show ?thesis
    by (simp add: node_count_def merge_node_def)
qed

lemma rel_count_merge_node [simp]: "rel_count t (merge_node l k v ps g) = rel_count t g"
  by (simp add: rel_count_def)

lemma load_image_total: "\<exists>b. fst (load_image env now image_path g) = Inr b"
  by (auto simp: load_image_def split: option.split)

lemma load_image_counts:
  "node_count l (snd (load_image env now' image_path g)) = node_count l (snd (load_image env now image_path g)) \<and>
   rel_count t (snd (load_image env now' image_path g)) = rel_count t (snd (load_image env now image_path g)) \<and>
   fst (load_image env now' image_path g) = fst (load_image env now image_path g)"
  by (simp add: load_image_def node_count_merge_node split: option.split)

lemma clear_database_empty: "clear_database g = empty_graph"
  by (cases g) (simp add: clear_database_def empty_graph_def)

lemma load_all_clear: "load_all env now g = load_all env now empty_graph"
  by (simp add: load_all_def clear_database_empty)

lemma load_all_clock:
  "node_count l (snd (load_all env now' g)) = node_count l (snd (load_all env now g)) \<and>
   rel_count t (snd (load_all env now' g)) = rel_count t (snd (load_all env now g))"
proof -
  let ?g0 = "create_indexes (clear_database g)"
  obtain r1 g1 where s1: "load_products env ''data/greenpower_products.json'' ?g0 = (r1, g1)"
    by (cases "load_products env ''data/greenpower_products.json'' ?g0")
  obtain r2 g2 where s2: "load_events env ''data/greenpower_events.json'' g1 = (r2, g2)"
    by (cases "load_events env ''data/greenpower_events.json'' g1")
  obtain r3 g3 where s3: "load_rd_projects env ''data/greenpower_rd_innovations.json'' g2 = (r3, g3)"
    by (cases "load_rd_projects env ''data/greenpower_rd_innovations.json'' g2")
  obtain r4 g4 where s4: "load_image env now ''data/exemple.jpg'' g3 = (r4, g4)"
    by (cases "load_image env now ''data/exemple.jpg'' g3")
  obtain r4' g4' where s4': "load_image env now' ''data/exemple.jpg'' g3 = (r4', g4')"
    by (cases "load_image env now' ''data/exemple.jpg'' g3")
  from load_image_counts [of l env now' "''data/exemple.jpg''" g3 now t] s4 s4'
  have c: "node_count l g4' = node_count l g4 \<and> rel_count t g4' = rel_count t g4 \<and> r4' = r4"
    by simp
  show ?thesis
    using s1 s2 s3 s4 s4' c
    by (simp add: load_all_def split: sum.split)
qed

subsection \<open>Relationships\<close>

lemma connects_update [simp]: "connects t a b (r\<lparr>rprops := ps\<rparr>) = connects t a b r"
  by (simp add: connects_def)







subsection \<open>Invariants of the loops\<close>





subsection \<open>Whether a step raises does not depend on the graph\<close>





subsection \<open>The trade-show mapper\<close>












section \<open>Properties of the revenue normaliser\<close>







text \<open>
  Claim C9, as stated: \<^verbatim>\<open>parse_revenue(parse_revenue(x)) == parse_revenue(x)\<close> for every
  \<open>x\<close> on which a value is returned. It fails on the string \<^verbatim>\<open>nan\<close>: \<^verbatim>\<open>float\<close> reads it as
  NaN, which \<open>parse_revenue\<close> returns and returns again, and NaN is not \<^verbatim>\<open>==\<close> to itself.
\<close>

theorem parse_revenue_nan_counterexample:
  "parse_revenue (PStr ''nan'') = Inr NaN \<and>
   parse_revenue (PFloat NaN) = Inr NaN \<and>
   \<not> float_eq NaN NaN"
proof -
  have "parse_revenue (PStr ''nan'') = Inr NaN"
    by code_simp
  then show ?thesis
    by (simp add: parse_revenue_def)
qed

text \<open>
  Claim C9, amended. When \<open>parse_revenue\<close> returns a float \<open>f\<close> on \<open>x\<close>, it returns the same
  \<open>f\<close> on \<open>f\<close>; the two results are equal under \<^verbatim>\<open>==\<close> whenever \<open>f\<close> is not NaN.
\<close>

theorem parse_revenue_idempotent:
  assumes "parse_revenue x = Inr f"
  shows "parse_revenue (PFloat f) = Inr f \<and> (f \<noteq> NaN \<longrightarrow> float_eq f f)"
  by (cases f) (simp_all add: parse_revenue_def)

theorem parse_revenue_idempotent_witness:
  "parse_revenue (PStr ''12 000'') = Inr (Finite 12000) \<and>
   parse_revenue (PFloat (Finite 12000)) = Inr (Finite 12000) \<and>
   float_eq (Finite 12000) (Finite 12000)"
proof -
  have h: "parse_revenue (PStr ''12 000'') = Inr (Finite 12000)"
    by code_simp
  from parse_revenue_idempotent [OF h] h show ?thesis
    by simp
qed

text \<open>
  Claim C10. On a value that is neither an \<^verbatim>\<open>int\<close> (a \<^verbatim>\<open>bool\<close> is one), a \<^verbatim>\<open>float\<close> nor a
  string, that is on \<^verbatim>\<open>None\<close>, a list or a dictionary, \<open>parse_revenue\<close> raises
  \<^verbatim>\<open>AttributeError\<close>; it does not return the fallback \<open>0.0\<close>.
\<close>

theorem parse_revenue_raises:
  assumes "\<forall>b. v \<noteq> PBool b" and "\<forall>n. v \<noteq> PInt n" and "\<forall>f. v \<noteq> PFloat f"
    and "\<forall>s. v \<noteq> PStr s"
  shows "parse_revenue v = Inl AttributeError \<and> parse_revenue v \<noteq> Inr (Finite 0)"
proof (cases v)
  case PNone
  then show ?thesis by (simp add: parse_revenue_def)
next
  case (PBool b)
  with assms(1) show ?thesis by blast
next
  case (PInt n)
  with assms(2) show ?thesis by blast
next
  case (PFloat f)
  with assms(3) show ?thesis by blast
next
  case (PStr s)
  with assms(4) show ?thesis by blast
next
  case (PList xs)
  then show ?thesis by (simp add: parse_revenue_def)
next
  case (PDict d)
  then show ?thesis by (simp add: parse_revenue_def)
qed

theorem parse_revenue_raises_witness:
  "parse_revenue PNone = Inl AttributeError \<and>
   parse_revenue (PList [PInt 1]) = Inl AttributeError \<and>
   parse_revenue (PDict []) = Inl AttributeError"
  using parse_revenue_raises [of PNone] parse_revenue_raises [of "PList [PInt 1]"]
    parse_revenue_raises [of "PDict []"]
  by simp

section \<open>Properties of the file resolver\<close>

text \<open>
  Claim C8. \<open>find_file\<close> returns the expected path when it exists. Otherwise, when files
  match the pattern in the data directory, it returns one of them, the first that
  \<^verbatim>\<open>glob\<close> lists; its result is the same in two file systems that answer alike for the
  path and the pattern. When nothing matches it returns \<^verbatim>\<open>None\<close>, and each of the three
  loaders then returns \<^verbatim>\<open>False\<close>, raises nothing and leaves the graph as it is.
\<close>

theorem find_file_spec:
  "(path_exists env p \<longrightarrow> find_file env p pat = Some p) \<and>
   (\<not> path_exists env p \<and> glob env (''data/'' @ pat) \<noteq> [] \<longrightarrow>
      find_file env p pat = Some (hd (glob env (''data/'' @ pat))) \<and>
      hd (glob env (''data/'' @ pat)) \<in> set (glob env (''data/'' @ pat))) \<and>
   (\<not> path_exists env p \<and> glob env (''data/'' @ pat) = [] \<longrightarrow> find_file env p pat = None) \<and>
   (path_exists env p = path_exists env' p \<and> glob env (''data/'' @ pat) = glob env' (''data/'' @ pat) \<longrightarrow>
      find_file env p pat = find_file env' p pat) \<and>
   (find_file env p ''*product*.json'' = None \<longrightarrow> load_products env p g = (Inr False, g)) \<and>
   (find_file env p ''*event*.json'' = None \<longrightarrow> load_events env p g = (Inr False, g)) \<and>
   (find_file env p ''*rd*.json'' = None \<longrightarrow> load_rd_projects env p g = (Inr False, g))"
  by (auto simp: find_file_def load_products_def load_events_def load_rd_projects_def
      split: list.splits)

theorem find_file_spec_witness:
  "find_file bad_products ''data/greenpower_products.json'' ''*product*.json''
     = Some ''data/greenpower_products.json'' \<and>
   find_file renamed_files ''data/greenpower_products.json'' ''*product*.json''
     = Some ''data/new_products.json'' \<and>
   find_file no_files ''data/greenpower_products.json'' ''*product*.json'' = None \<and>
   load_products no_files ''data/greenpower_products.json'' empty_graph = (Inr False, empty_graph) \<and>
   load_events no_files ''data/greenpower_events.json'' empty_graph = (Inr False, empty_graph) \<and>
   load_rd_projects no_files ''data/greenpower_rd_innovations.json'' empty_graph
     = (Inr False, empty_graph)"
proof -
  have a: "path_exists bad_products ''data/greenpower_products.json''"
    by (simp add: bad_products_def)
  have b: "\<not> path_exists renamed_files ''data/greenpower_products.json'' \<and>
           glob renamed_files (''data/'' @ ''*product*.json'') \<noteq> []"
    by (simp add: renamed_files_def)
  have b': "hd (glob renamed_files (''data/'' @ ''*product*.json'')) = ''data/new_products.json''"
    by (simp add: renamed_files_def)
  have c: "\<not> path_exists no_files p \<and> glob no_files (''data/'' @ pat) = []" for p pat
    by (simp add: no_files_def)
  have n: "find_file no_files p pat = None" for p pat
    using find_file_spec [of no_files p pat] c by blast
  from a find_file_spec [of bad_products "''data/greenpower_products.json''" "''*product*.json''"]
  have 1: "find_file bad_products ''data/greenpower_products.json'' ''*product*.json''
     = Some ''data/greenpower_products.json''"
    by blast
  from b b' find_file_spec [of renamed_files "''data/greenpower_products.json''" "''*product*.json''"]
  have 2: "find_file renamed_files ''data/greenpower_products.json'' ''*product*.json''
     = Some ''data/new_products.json''"
    by simp
  from n find_file_spec [of no_files "''data/greenpower_products.json''" _ _ empty_graph]
  have 3: "load_products no_files ''data/greenpower_products.json'' empty_graph = (Inr False, empty_graph)"
    by blast
  from n find_file_spec [of no_files "''data/greenpower_events.json''" _ _ empty_graph]
  have 4: "load_events no_files ''data/greenpower_events.json'' empty_graph = (Inr False, empty_graph)"
    by blast
  from n find_file_spec [of no_files "''data/greenpower_rd_innovations.json''" _ _ empty_graph]
  have 5: "load_rd_projects no_files ''data/greenpower_rd_innovations.json'' empty_graph
     = (Inr False, empty_graph)"
    by blast
  from 1 2 3 4 5 n show ?thesis
    by simp
qed

section \<open>Properties of the orchestrator\<close>

text \<open>
  Claim C2. Running \<^verbatim>\<open>load_all\<close> a second time in the same environment, on the graph the
  first run has left, gives the same number of nodes of every label and the same number
  of relationships of every type as the first run, also when the clock of the store has
  moved and when a run ends with an exception. The environment is the input: the files,
  and what the description service returns for the image.
\<close>

theorem load_all_twice:
  "node_count l (snd (load_all env now' (snd (load_all env now g)))) =
     node_count l (snd (load_all env now g)) \<and>
   rel_count t (snd (load_all env now' (snd (load_all env now g)))) =
     rel_count t (snd (load_all env now g))"
proof -
  have "load_all env now' (snd (load_all env now g)) = load_all env now' g"
    using load_all_clear [of env now' "snd (load_all env now g)"] load_all_clear [of env now' g]
    by simp
  then show ?thesis
    using load_all_clock [of l env now' g now t] by simp
qed


text \<open>
  Claim C1, as stated: a mapper-level error, such as a required key missing in a record,
  is caught, the remaining stages are attempted and nothing is raised past \<^verbatim>\<open>load_all\<close>.
  It fails on a products file whose record lacks \<^verbatim>\<open>pricing.margin_percentage\<close>: the
  \<^verbatim>\<open>KeyError\<close> leaves \<^verbatim>\<open>load_all\<close>, and the image stage, which would have stored a node,
  is not run.
\<close>

theorem load_all_key_error_counterexample:
  "fst (load_all bad_products (PStr ''t'') empty_graph) = Inl (KeyError ''margin_percentage'') \<and>
   node_count ''Image'' (snd (load_all bad_products (PStr ''t'') empty_graph)) = 0 \<and>
   fst (load_image bad_products (PStr ''t'') ''data/exemple.jpg'' empty_graph) = Inr True \<and>
   node_count ''Image'' (snd (load_image bad_products (PStr ''t'') ''data/exemple.jpg'' empty_graph)) = 1"
proof -
  have args: "product_args incomplete_product = Inl (KeyError ''margin_percentage'')"
    by code_simp
  have found: "find_file bad_products ''data/greenpower_products.json'' ''*product*.json''
      = Some ''data/greenpower_products.json''"
    by (simp add: find_file_def bad_products_def)
  have read: "read_json bad_products ''data/greenpower_products.json''
      = Some (PDict [(''products'', PList [incomplete_product])])"
    by (simp add: bad_products_def)
  have products: "load_products bad_products ''data/greenpower_products.json'' g
      = (Inl (KeyError ''margin_percentage''), g)" for g
    using args found read
    by (simp add: load_products_def for_in_def get_def iter_def bind_def load_product_def
        seq_def run_def product_node_def)
  have all: "load_all bad_products (PStr ''t'') empty_graph
      = (Inl (KeyError ''margin_percentage''), empty_graph)"
    by (simp add: load_all_def products create_indexes_def clear_database_empty)
  have exists: "path_exists bad_products ''data/exemple.jpg''"
    by (simp add: bad_products_def)
  have image: "process_image bad_products ''data/exemple.jpg'' = Some [''a generator'', ''on a trailer'']"
    by (simp add: bad_products_def)
  have none: "match_nodes ''Image'' ''filename'' v empty_graph = []" for v
    by (simp add: match_nodes_def empty_graph_def)
  have count0: "node_count ''Image'' empty_graph = 0"
    by (simp add: node_count_def empty_graph_def)
  show ?thesis
    using all exists image none count0
    by (simp add: load_image_def node_count_merge_node)
qed

text \<open>
  Claim C1, amended. A stage whose file is absent or cannot be read returns \<^verbatim>\<open>False\<close>,
  raises nothing and leaves the graph as it is; the image stage never raises, and returns
  \<^verbatim>\<open>False\<close> when the image is absent or the description service fails or describes
  nothing. Whenever the products, events and R&D stages return, \<^verbatim>\<open>True\<close> or \<^verbatim>\<open>False\<close>, the
  four stages run one after the other, \<^verbatim>\<open>load_all\<close> raises nothing and counts the stages
  that returned \<^verbatim>\<open>True\<close>.
\<close>

theorem load_all_stages:
  "(no_data env p ''*product*.json'' \<longrightarrow> load_products env p g = (Inr False, g)) \<and>
   (no_data env p ''*event*.json'' \<longrightarrow> load_events env p g = (Inr False, g)) \<and>
   (no_data env p ''*rd*.json'' \<longrightarrow> load_rd_projects env p g = (Inr False, g)) \<and>
   (\<exists>b. fst (load_image env now p g) = Inr b) \<and>
   (\<not> path_exists env p \<or> process_image env p = None \<or> process_image env p = Some []
      \<longrightarrow> load_image env now p g = (Inr False, g)) \<and>
   (load_products env ''data/greenpower_products.json'' (create_indexes (clear_database g)) = (Inr b1, g1) \<and>
    load_events env ''data/greenpower_events.json'' g1 = (Inr b2, g2) \<and>
    load_rd_projects env ''data/greenpower_rd_innovations.json'' g2 = (Inr b3, g3)
      \<longrightarrow> (\<exists>b4. load_image env now ''data/exemple.jpg'' g3
                   = (Inr b4, snd (load_image env now ''data/exemple.jpg'' g3)) \<and>
                load_all env now g
                   = (Inr (count_loaded [b1, b2, b3, b4]), snd (load_image env now ''data/exemple.jpg'' g3))))"
proof -
  have 1: "no_data env p ''*product*.json'' \<longrightarrow> load_products env p g = (Inr False, g)"
    by (auto simp: no_data_def load_products_def split: option.splits)
  have 2: "no_data env p ''*event*.json'' \<longrightarrow> load_events env p g = (Inr False, g)"
    by (auto simp: no_data_def load_events_def split: option.splits)
  have 3: "no_data env p ''*rd*.json'' \<longrightarrow> load_rd_projects env p g = (Inr False, g)"
    by (auto simp: no_data_def load_rd_projects_def split: option.splits)
  have 4: "\<exists>b. fst (load_image env now p g) = Inr b"
    by (rule load_image_total)
  have 5: "\<not> path_exists env p \<or> process_image env p = None \<or> process_image env p = Some []
      \<longrightarrow> load_image env now p g = (Inr False, g)"
    by (auto simp: load_image_def)
  obtain b4 where b4: "fst (load_image env now ''data/exemple.jpg'' g3) = Inr b4"
    using load_image_total by blast
  then have i: "load_image env now ''data/exemple.jpg'' g3
      = (Inr b4, snd (load_image env now ''data/exemple.jpg'' g3))"
    by (metis prod.collapse)
  have 6: "load_products env ''data/greenpower_products.json'' (create_indexes (clear_database g)) = (Inr b1, g1) \<and>
    load_events env ''data/greenpower_events.json'' g1 = (Inr b2, g2) \<and>
    load_rd_projects env ''data/greenpower_rd_innovations.json'' g2 = (Inr b3, g3)
      \<longrightarrow> (\<exists>b4. load_image env now ''data/exemple.jpg'' g3
                   = (Inr b4, snd (load_image env now ''data/exemple.jpg'' g3)) \<and>
                load_all env now g
                   = (Inr (count_loaded [b1, b2, b3, b4]), snd (load_image env now ''data/exemple.jpg'' g3)))"
  proof (intro impI exI [of _ b4] conjI)
    show "load_image env now ''data/exemple.jpg'' g3
      = (Inr b4, snd (load_image env now ''data/exemple.jpg'' g3))"
      by (rule i)
  next
    assume "load_products env ''data/greenpower_products.json'' (create_indexes (clear_database g)) = (Inr b1, g1) \<and>
      load_events env ''data/greenpower_events.json'' g1 = (Inr b2, g2) \<and>
      load_rd_projects env ''data/greenpower_rd_innovations.json'' g2 = (Inr b3, g3)"
    moreover obtain g4 where "load_image env now ''data/exemple.jpg'' g3 = (Inr b4, g4)"
      using i by blast
    ultimately show "load_all env now g
      = (Inr (count_loaded [b1, b2, b3, b4]), snd (load_image env now ''data/exemple.jpg'' g3))"
      by (simp add: load_all_def)
  qed
  from 1 2 3 4 5 6 show ?thesis
    by blast
qed


theorem load_all_stages_witness:
  "no_data no_files ''data/greenpower_products.json'' ''*product*.json'' \<and>
   load_products no_files ''data/greenpower_products.json'' empty_graph = (Inr False, empty_graph) \<and>
   no_data renamed_files ''data/greenpower_products.json'' ''*product*.json'' \<and>
   load_products renamed_files ''data/greenpower_products.json'' empty_graph = (Inr False, empty_graph) \<and>
   no_data no_files ''data/greenpower_events.json'' ''*event*.json'' \<and>
   load_events no_files ''data/greenpower_events.json'' empty_graph = (Inr False, empty_graph) \<and>
   no_data no_files ''data/greenpower_rd_innovations.json'' ''*rd*.json'' \<and>
   load_rd_projects no_files ''data/greenpower_rd_innovations.json'' empty_graph = (Inr False, empty_graph) \<and>
   \<not> path_exists no_files ''data/exemple.jpg'' \<and>
   load_image no_files (PStr ''t'') ''data/exemple.jpg'' empty_graph = (Inr False, empty_graph) \<and>
   load_events renamed_files ''data/greenpower_events.json'' empty_graph = (Inr True, empty_graph) \<and>
   load_all renamed_files (PStr ''t'') empty_graph = (Inr 1, empty_graph)"
proof -
  have n: "no_data no_files p pat" for p pat
    by (simp add: no_data_def find_file_def no_files_def)
  have r: "no_data renamed_files ''data/greenpower_products.json'' ''*product*.json''"
    by (simp add: no_data_def find_file_def renamed_files_def)
  have r': "no_data renamed_files ''data/greenpower_rd_innovations.json'' ''*rd*.json''"
    by (simp add: no_data_def find_file_def renamed_files_def)
  have i: "\<not> path_exists no_files ''data/exemple.jpg''"
    by (simp add: no_files_def)
  have i': "\<not> path_exists renamed_files ''data/exemple.jpg''"
    by (simp add: renamed_files_def)
  have e: "load_events renamed_files ''data/greenpower_events.json'' empty_graph = (Inr True, empty_graph)"
    by (simp add: load_events_def find_file_def renamed_files_def seq_def for_in_def get_def
        iter_def bind_def)
  have c: "create_indexes (clear_database empty_graph) = empty_graph"
    by (simp add: create_indexes_def clear_database_empty)
  note t = load_all_stages [where now = "PStr ''t''" and g = empty_graph]
  have 1: "load_products no_files ''data/greenpower_products.json'' empty_graph = (Inr False, empty_graph)"
    using n t [of no_files "''data/greenpower_products.json''"] by blast
  have 2: "load_products renamed_files ''data/greenpower_products.json'' empty_graph = (Inr False, empty_graph)"
    using r t [of renamed_files "''data/greenpower_products.json''"] by blast
  have 3: "load_events no_files ''data/greenpower_events.json'' empty_graph = (Inr False, empty_graph)"
    using n t [of no_files "''data/greenpower_events.json''"] by blast
  have 4: "load_rd_projects no_files ''data/greenpower_rd_innovations.json'' empty_graph = (Inr False, empty_graph)"
    using n t [of no_files "''data/greenpower_rd_innovations.json''"] by blast
  have rd: "load_rd_projects renamed_files ''data/greenpower_rd_innovations.json'' empty_graph = (Inr False, empty_graph)"
    using r' t [of renamed_files "''data/greenpower_rd_innovations.json''"] by blast
  have 5: "load_image no_files (PStr ''t'') ''data/exemple.jpg'' empty_graph = (Inr False, empty_graph)"
    using i t [of no_files "''data/exemple.jpg''"] by blast
  have im: "load_image renamed_files (PStr ''t'') ''data/exemple.jpg'' empty_graph = (Inr False, empty_graph)"
    using i' t [of renamed_files "''data/exemple.jpg''"] by blast
  have "\<exists>b4. load_image renamed_files (PStr ''t'') ''data/exemple.jpg'' empty_graph
            = (Inr b4, snd (load_image renamed_files (PStr ''t'') ''data/exemple.jpg'' empty_graph)) \<and>
          load_all renamed_files (PStr ''t'') empty_graph
            = (Inr (count_loaded [False, True, False, b4]),
               snd (load_image renamed_files (PStr ''t'') ''data/exemple.jpg'' empty_graph))"
    using 2 e rd c
      t [of renamed_files _ False empty_graph True empty_graph False empty_graph]
    by simp
  then have 6: "load_all renamed_files (PStr ''t'') empty_graph = (Inr 1, empty_graph)"
    using im by (auto simp: count_loaded_def)
  from n r i e 1 2 3 4 5 6 show ?thesis
    by simp
qed

section \<open>Properties of the events loader\<close>





text \<open>
  Claim C5, as stated: an entry of a sale's products that does not have the form of an
  identifier, \<^verbatim>\<open> x\<close> and an integer is skipped and raises nothing, and the entries after
  it are processed. It fails on \<^verbatim>\<open>PG-M01 xyz\<close>: the split gives two parts, \<^verbatim>\<open>int\<close> raises
  \<^verbatim>\<open>ValueError\<close> on the second, and the entry after it, which alone stores a
  relationship, is not processed.
\<close>

theorem sale_product_counterexample:
  "split '' x'' ''PG-M01 xyz'' = [''PG-M01'', ''yz''] \<and>
   int_of_str ''yz'' = Inl ValueError \<and>
   for_each (sale_product ''TS1_particuliers'') [PStr ''PG-M01 xyz'', PStr ''PG-M01 x2''] sale_graph
     = (Inl ValueError, sale_graph) \<and>
   rel_count ''INCLUDES_PRODUCT''
     (snd (for_each (sale_product ''TS1_particuliers'') [PStr ''PG-M01 x2''] sale_graph)) = 1"
proof -
  have 1: "split '' x'' ''PG-M01 xyz'' = [''PG-M01'', ''yz'']"
    by code_simp
  have 2: "int_of_str ''yz'' = Inl ValueError"
    by code_simp
  have 3: "sale_product ''TS1_particuliers'' (PStr ''PG-M01 xyz'') g = (Inl ValueError, g)" for g
    by (simp add: sale_product_def str_split_def 1 2 run_def bind_def)
  have 4: "rel_count ''INCLUDES_PRODUCT''
     (snd (for_each (sale_product ''TS1_particuliers'') [PStr ''PG-M01 x2''] sale_graph)) = 1"
    by code_simp
  from 1 2 3 4 show ?thesis
    by simp
qed

text \<open>
  Claim C5, amended. An entry whose split on \<^verbatim>\<open> x\<close> does not give exactly two parts is
  skipped: it raises nothing, it leaves the graph as it is, and the loop goes on with
  the entries after it.
\<close>

theorem sale_product_skips:
  assumes "length (split '' x'' s) \<noteq> 2"
  shows "sale_product sid (PStr s) g = (Inr (), g) \<and>
         for_each (sale_product sid) (PStr s # rest) g = for_each (sale_product sid) rest g"
  using assms by (simp add: sale_product_def str_split_def)

theorem sale_product_skips_witness:
  "length (split '' x'' ''PG-U01'') \<noteq> 2 \<and>
   length (split '' x'' ''PG x1 x2'') \<noteq> 2 \<and>
   sale_product ''TS1_particuliers'' (PStr ''PG-U01'') sale_graph = (Inr (), sale_graph) \<and>
   for_each (sale_product ''TS1_particuliers'') [PStr ''PG x1 x2'', PStr ''PG-U01''] sale_graph
     = (Inr (), sale_graph)"
proof -
  have a: "length (split '' x'' ''PG-U01'') \<noteq> 2"
    by code_simp
  have b: "length (split '' x'' ''PG x1 x2'') \<noteq> 2"
    by code_simp
  from sale_product_skips [OF a, of "''TS1_particuliers''" sale_graph "[]"]
    sale_product_skips [OF b, of "''TS1_particuliers''" sale_graph "[PStr ''PG-U01'']"] a b
  show ?thesis
    by simp
qed










end
